theory Spec2Isabelle
  imports Complex_Main "HOL-Library.Multiset" "HOL-Library.Product_Lexorder"
begin

section \<open>The counterfactual generator of Generators/GnnGenerator.py\<close>

text \<open>
  The script builds a \<open>GnnGenerator\<close> from its keyword arguments, hands the sentences and the
  pretrained models to a \<open>GnnEditor\<close>, and exports what the editor returns. The model below
  follows the script statement by statement. What the script does to the outside world
  (printing, running the editor, writing files) is recorded as a list of events, in the
  order of the calls; \<open>exit(1)\<close> and uncaught exceptions are values of type \<open>failure\<close>.

  Library calls (\<open>os.path.exists\<close>, \<open>pd.read_csv\<close>, \<open>torch.load\<close>, \<open>from_pretrained\<close>,
  \<open>to_csv\<close>, \<open>json.dump\<close>) are taken to return; what the reading ones return is given by an
  environment. The exceptions that the script's own expressions can raise on well-formed
  input are modelled: selecting a column that the table does not have, and calling
  \<open>to_csv\<close> on \<open>None\<close>.
\<close>

subsection \<open>Data\<close>

text \<open>A data frame: its columns in order, each a name and its cells (\<open>None\<close> is a missing value).\<close>

type_synonym dataframe = "(string \<times> string option list) list"

text \<open>The substitution dictionary: a word and the substitutes recorded for it, in insertion order.\<close>

type_synonym subs_dict = "(string \<times> string list) list"

type_synonym weights = "real list"

datatype device = Cpu | Cuda

text \<open>
  Modelled from the spec: the class \<open>Model\<close> of GLAN_Model/GNBlock.py is not among the sources.
  It is the pretrained graph neural network, a \<open>torch.nn.Module\<close>: it has the dimensions it
  was built with, a state dictionary (\<open>None\<close> until one is loaded), a device, and the
  training flag that \<open>eval()\<close> clears.
\<close>

record gnn =
  layer_num :: nat
  edge_dim :: nat
  node_dim :: nat
  state_dict :: "weights option"
  device :: device
  training :: bool

text \<open>
  Modelled from the spec: the constructor and the methods of \<open>Model\<close> (missing) that the
  generator calls. They are those of every \<open>torch.nn.Module\<close>: a new module is on the CPU and
  in training mode; \<open>load_state_dict\<close> replaces the weights, \<open>cuda\<close> moves the module,
  \<open>eval\<close> clears the training flag.
\<close>

definition Model :: "nat \<Rightarrow> nat \<Rightarrow> nat \<Rightarrow> gnn" where
  "Model l e n =
     \<lparr>layer_num = l, edge_dim = e, node_dim = n, state_dict = None, device = Cpu, training = True\<rparr>"

definition load_state_dict :: "weights \<Rightarrow> gnn \<Rightarrow> gnn" where
  "load_state_dict w m = m\<lparr>state_dict := Some w\<rparr>"

definition cuda :: "gnn \<Rightarrow> gnn" where
  "cuda m = m\<lparr>device := Cuda\<rparr>"

definition eval_mode :: "gnn \<Rightarrow> gnn" where
  "eval_mode m = m\<lparr>training := False\<rparr>"

datatype predictor = DistilBertForSequenceClassification weights

datatype tokenizer = DistilBertTokenizerFast string

text \<open>The state of the torch library that the script touches: the global gradient switch.\<close>

record globals =
  grad_enabled :: bool

definition torch_default :: globals where
  "torch_default = \<lparr>grad_enabled = True\<rparr>"

text \<open>Line 61, executed when the module is loaded: \<open>torch.set_grad_enabled(False)\<close>.\<close>

definition module_toplevel :: "globals \<Rightarrow> globals" where
  "module_toplevel gl = gl\<lparr>grad_enabled := False\<rparr>"

record env =
  path_exists :: "string \<Rightarrow> bool"
  read_csv :: "string \<Rightarrow> dataframe"
  torch_load :: "string \<Rightarrow> weights"
  predictor_from_pretrained :: "string \<Rightarrow> predictor"
  tokenizer_from_pretrained :: "string \<Rightarrow> tokenizer"

text \<open>The keyword arguments of the constructor, which are also the attributes of the parsed command line.\<close>

record args =
  arg_src_file :: "string option"
  arg_col :: "string option"
  arg_dest_file :: "string option"
  arg_json_file :: "string option"
  arg_pos :: "string option"
  arg_antonyms :: "bool option"
  arg_gnn_model_file :: "string option"
  arg_predictor_path :: "string option"
  arg_edge_filter :: "bool option"
  arg_optimal_threshold :: "bool option"
  arg_use_contrastive_prob :: "bool option"

record generator =
  sentences :: dataframe
  gnn_model :: gnn
  predictor :: predictor
  tokenizer :: tokenizer
  dest_file :: string
  json_file :: "string option"
  pos :: "string option"
  antonyms :: "bool option"
  edge_filter :: bool
  opt_th :: bool
  use_contrastive_prob :: bool
  edits :: "dataframe option"
  subs_dict :: "subs_dict option"

subsection \<open>Effects and failures\<close>

datatype exn = KeyError string | AttributeError string

datatype failure = SystemExit nat | Raised exn

datatype event =
    Print string
  | GnnEditorPipeline globals dataframe gnn predictor tokenizer "string option" "bool option"
      bool bool bool
  | ToCsv string dataframe bool
  | JsonDump string "subs_dict option"
  | PrintExecutionTime

type_synonym 'a io = "(failure + 'a) \<times> event list"

definition return_io :: "'a \<Rightarrow> 'a io" where
  "return_io x = (Inr x, [])"

definition bind_io :: "'a io \<Rightarrow> ('a \<Rightarrow> 'b io) \<Rightarrow> 'b io" where
  "bind_io m f =
     (case m of
        (Inl e, tr) \<Rightarrow> (Inl e, tr)
      | (Inr x, tr) \<Rightarrow> (case f x of (r, tr') \<Rightarrow> (r, tr @ tr')))"

definition print_io :: "string \<Rightarrow> unit io" where
  "print_io s = (Inr (), [Print s])"

definition exit_io :: "nat \<Rightarrow> 'a io" where
  "exit_io n = (Inl (SystemExit n), [])"

definition raise_io :: "exn \<Rightarrow> 'a io" where
  "raise_io e = (Inl (Raised e), [])"

text \<open>\<open>print("[ERROR]: ..."); exit(1)\<close>\<close>

definition error_exit :: "string \<Rightarrow> 'a io" where
  "error_exit msg = bind_io (print_io msg) (\<lambda>_. exit_io 1)"

text \<open>\<open>df[[col]]\<close>: the frame with the one column \<open>col\<close>, or \<open>KeyError\<close> when there is none.\<close>

definition select_columns :: "dataframe \<Rightarrow> string \<Rightarrow> dataframe io" where
  "select_columns df c =
     (case map_of df c of
        None \<Rightarrow> raise_io (KeyError c)
      | Some cells \<Rightarrow> return_io [(c, cells)])"

subsection \<open>The editor\<close>

text \<open>
  The class \<open>GnnEditor\<close> of Editors/GnnEditor.py is not among the sources. The generator is
  modelled for any editor: a function from the constructor's arguments (data, gnn_model,
  predictor, tokenizer, pos, antonyms) and the arguments of its \<open>pipeline\<close> (edge_filter, opt_th,
  use_contrastive_prob) to the pair (edits, substitution dictionary) that \<open>pipeline\<close> returns.
\<close>

type_synonym editor =
  "dataframe \<Rightarrow> gnn \<Rightarrow> predictor \<Rightarrow> tokenizer \<Rightarrow> string option \<Rightarrow> bool option \<Rightarrow>
   bool \<Rightarrow> bool \<Rightarrow> bool \<Rightarrow> dataframe \<times> subs_dict"

definition run_editor ::
  "editor \<Rightarrow> globals \<Rightarrow> dataframe \<Rightarrow> gnn \<Rightarrow> predictor \<Rightarrow> tokenizer \<Rightarrow> string option \<Rightarrow>
   bool option \<Rightarrow> bool \<Rightarrow> bool \<Rightarrow> bool \<Rightarrow> (dataframe \<times> subs_dict) io" where
  "run_editor E gl d m p t ps an ef ot cp =
     (Inr (E d m p t ps an ef ot cp), [GnnEditorPipeline gl d m p t ps an ef ot cp])"

subsection \<open>The class GnnGenerator\<close>

definition GnnGenerator_init :: "env \<Rightarrow> args \<Rightarrow> generator io" where
  "GnnGenerator_init env a =
     bind_io (case arg_src_file a of
                None \<Rightarrow> error_exit ''[ERROR]: src_file must be specified''
              | Some s \<Rightarrow> return_io s) (\<lambda>src.
     bind_io (if \<not> path_exists env src
              then error_exit (''[ERROR]: File '' @ src @ '' does not exist'')
              else return_io ()) (\<lambda>_.
     bind_io (case arg_col a of
                None \<Rightarrow> error_exit ''[ERROR]: col must be specified''
              | Some c \<Rightarrow> return_io c) (\<lambda>c.
     bind_io (select_columns (read_csv env src) c) (\<lambda>sents.
     bind_io (case arg_gnn_model_file a of
                None \<Rightarrow> error_exit ''[ERROR]: gnn_model_file must be specified''
              | Some f \<Rightarrow> return_io f) (\<lambda>gf.
     bind_io (if \<not> path_exists env gf
              then error_exit (''[ERROR]: File '' @ gf @ '' does not exist'')
              else return_io ()) (\<lambda>_.
     bind_io (return_io (eval_mode (cuda (load_state_dict (torch_load env gf) (Model 5 16 8))))) (\<lambda>m.
     bind_io (case arg_predictor_path a of
                None \<Rightarrow> error_exit ''[ERROR]: predictor_file must be specified''
              | Some p \<Rightarrow> return_io p) (\<lambda>pp.
     bind_io (if \<not> path_exists env pp
              then error_exit (''[ERROR]: File '' @ pp @ '' does not exist'')
              else return_io ()) (\<lambda>_.
     return_io
       \<lparr>sentences = sents,
        gnn_model = m,
        predictor = predictor_from_pretrained env pp,
        tokenizer = tokenizer_from_pretrained env ''distilbert-base-uncased'',
        dest_file = (case arg_dest_file a of None \<Rightarrow> ''gnn_edits.csv'' | Some d \<Rightarrow> d),
        json_file = arg_json_file a,
        pos = arg_pos a,
        antonyms = arg_antonyms a,
        edge_filter = (case arg_edge_filter a of Some b \<Rightarrow> b | None \<Rightarrow> False),
        opt_th = (case arg_optimal_threshold a of Some b \<Rightarrow> b | None \<Rightarrow> False),
        use_contrastive_prob = (case arg_use_contrastive_prob a of Some b \<Rightarrow> b | None \<Rightarrow> False),
        edits = None,
        subs_dict = None\<rparr>)))))))))"

definition generate_counterfactuals :: "editor \<Rightarrow> globals \<Rightarrow> generator \<Rightarrow> generator io" where
  "generate_counterfactuals E gl self =
     bind_io (print_io ''[INFO]: Generating counterfactuals...'') (\<lambda>_.
     bind_io (run_editor E gl (sentences self) (gnn_model self) (predictor self) (tokenizer self)
                (pos self) (antonyms self) (edge_filter self) (opt_th self)
                (use_contrastive_prob self)) (\<lambda>r.
     return_io (self\<lparr>edits := Some (fst r), subs_dict := Some (snd r)\<rparr>)))"

definition export_to_csv :: "generator \<Rightarrow> generator io" where
  "export_to_csv self =
     bind_io (print_io (''[INFO]: Exporting generated counterfactuals to '' @ dest_file self @ ''...'')) (\<lambda>_.
     bind_io (case edits self of
                None \<Rightarrow> raise_io (AttributeError ''to_csv'')
              | Some e \<Rightarrow> (Inr (), [ToCsv (dest_file self) e False])) (\<lambda>_.
     bind_io (case json_file self of
                None \<Rightarrow> return_io ()
              | Some j \<Rightarrow>
                  bind_io (print_io (''[INFO]: Exporting substitution dictionary to '' @ j @ ''...'')) (\<lambda>_.
                  (Inr (), [JsonDump j (subs_dict self)]))) (\<lambda>_.
     return_io self)))"

definition pipeline :: "editor \<Rightarrow> globals \<Rightarrow> generator \<Rightarrow> unit io" where
  "pipeline E gl self =
     bind_io (generate_counterfactuals E gl self) (\<lambda>g.
     bind_io (export_to_csv g) (\<lambda>_. return_io ()))"

definition main :: "env \<Rightarrow> editor \<Rightarrow> globals \<Rightarrow> args \<Rightarrow> unit io" where
  "main env E gl a =
     bind_io (GnnGenerator_init env a) (\<lambda>generator.
     bind_io (pipeline E gl generator) (\<lambda>_.
     (Inr (), [PrintExecutionTime])))"

text \<open>Running the script: the module is loaded (line 61), then \<open>main\<close> runs.\<close>

definition script :: "env \<Rightarrow> editor \<Rightarrow> args \<Rightarrow> unit io" where
  "script env E a = main env E (module_toplevel torch_default) a"

section \<open>The editor, from the specification\<close>

text \<open>
  Editors/GnnEditor.py is not among the sources, so what \<open>GnnEditor.pipeline\<close> computes is
  modelled from sections 3 and 4 of the specification: a bipartite graph of substitution
  edges per sentence, scored by the GNN, and a beam search over the edges that consults the
  classifier. The external collaborators (tokenizer, part-of-speech tagger, lexical
  resource, the forward pass of the GNN, the classifier) and the quantities that the
  specification leaves open (baseline score, how scores of applied edges combine, beam
  width, the fixed budget and the adaptive budget) are the fields of \<open>oracles\<close>.
\<close>

text \<open>
  Modelled from the spec: the lexical relation selector of section 6 (synonym or antonym);
  GnnEditor is missing.
\<close>

datatype relation = Synonym | Antonym

text \<open>
  Modelled from the spec: a Substitution Edge of section 3, from the Position Node (index,
  original word) to the Candidate Node (surface form), with the relation type and the POS-match
  flag; GnnEditor is missing.
\<close>

record edge =
  position :: nat
  original_word :: string
  substitute :: string
  edge_relation :: relation
  pos_match :: bool

text \<open>
  Modelled from the spec: the collaborators of sections 4.1 to 4.4 that GnnEditor (missing)
  consults, and the parameters of the search that section 4.5 leaves to the implementer.
\<close>

record oracles =
  tokenize :: "tokenizer \<Rightarrow> string \<Rightarrow> string list"
  detokenize :: "tokenizer \<Rightarrow> string list \<Rightarrow> string"
  pos_tag :: "string list \<Rightarrow> nat \<Rightarrow> string"
  candidate_pos :: "string \<Rightarrow> string"
  get_candidates :: "string \<Rightarrow> string option \<Rightarrow> relation \<Rightarrow> string list"
  gnn_forward :: "gnn \<Rightarrow> edge list \<Rightarrow> real list"
  predict :: "predictor \<Rightarrow> tokenizer \<Rightarrow> string \<Rightarrow> nat \<times> real"
  contrastive :: "predictor \<Rightarrow> tokenizer \<Rightarrow> nat \<Rightarrow> string \<Rightarrow> real"
  baseline :: real
  combine :: "real \<Rightarrow> real \<Rightarrow> real"
  beam_width :: nat
  fixed_budget :: nat
  adaptive_budget :: "string list \<Rightarrow> (edge \<times> real) list \<Rightarrow> nat"

text \<open>
  Modelled from the spec: a member of the Beam State of section 3, a partial Candidate Sentence
  with the edits applied to it and its cumulative score; GnnEditor is missing.
\<close>

record beam_state =
  candidate_sentence :: "string list"
  applied_edges :: "edge list"
  cum_score :: real

text \<open>
  Modelled from the spec: \<open>build_graph\<close> of section 4.2 (GnnEditor is missing).
  Every token, or every token with the filtered part of speech, gets one edge per substitute
  that the provider returns; with the edge filter on, edges whose candidate has another part of
  speech are left out at construction.
\<close>

definition build_graph :: "oracles \<Rightarrow> string list \<Rightarrow> string option \<Rightarrow> relation \<Rightarrow> bool \<Rightarrow> edge list" where
  "build_graph ora toks pos_filter rel ef =
     concat (map (\<lambda>i.
        if (case pos_filter of None \<Rightarrow> True | Some p \<Rightarrow> pos_tag ora toks i = p)
        then filter (\<lambda>e. if ef then pos_match e else True)
               (map (\<lambda>w. \<lparr>position = i, original_word = toks ! i, substitute = w,
                           edge_relation = rel,
                           pos_match = (candidate_pos ora w = pos_tag ora toks i)\<rparr>)
                    (get_candidates ora (toks ! i) pos_filter rel))
        else []) [0..<length toks])"

text \<open>
  Modelled from the spec: \<open>score\<close> of section 4.3 (GnnEditor is missing): one
  forward pass over the whole graph, skipped when the graph has no edge.
\<close>

definition score_graph :: "oracles \<Rightarrow> gnn \<Rightarrow> edge list \<Rightarrow> (edge \<times> real) list" where
  "score_graph ora m es = (if es = [] then [] else zip es (gnn_forward ora m es))"

text \<open>
  Modelled from the spec: the deterministic ranking of section 4.5 (GnnEditor is missing), as a
  stable insertion sort: among equally ranked elements the earlier one stays first.
\<close>

fun insert_by :: "('a \<Rightarrow> 'a \<Rightarrow> bool) \<Rightarrow> 'a \<Rightarrow> 'a list \<Rightarrow> 'a list" where
  "insert_by better x [] = [x]"
| "insert_by better x (y # ys) = (if better y x then y # insert_by better x ys else x # y # ys)"

text \<open>
  Modelled from the spec: section 4.5, ranking a list by a strict order, ties in the original
  order; GnnEditor is missing.
\<close>

definition sort_by :: "('a \<Rightarrow> 'a \<Rightarrow> bool) \<Rightarrow> 'a list \<Rightarrow> 'a list" where
  "sort_by better xs = foldr (insert_by better) xs []"

text \<open>
  Modelled from the spec: section 4.5, edges are tried by descending GNN score; GnnEditor is
  missing.
\<close>

definition higher_score :: "edge \<times> real \<Rightarrow> edge \<times> real \<Rightarrow> bool" where
  "higher_score a b = (snd a > snd b)"

text \<open>
  Modelled from the spec: section 4.5, states rank by score, ties by fewer edits; GnnEditor is
  missing.
\<close>

definition ranks_above :: "beam_state \<Rightarrow> beam_state \<Rightarrow> bool" where
  "ranks_above a b =
     (cum_score a > cum_score b \<or>
      (cum_score a = cum_score b \<and> length (applied_edges a) < length (applied_edges b)))"

text \<open>
  Modelled from the spec: the expansion step of section 4.5 (GnnEditor is missing): one more
  edge, not yet applied, is applied to the state; the new score is the contrastive probability
  of the new sentence when that ranking is on, the combined GNN score otherwise.
\<close>

definition expand ::
  "oracles \<Rightarrow> predictor \<Rightarrow> tokenizer \<Rightarrow> bool \<Rightarrow> nat \<Rightarrow> (edge \<times> real) list \<Rightarrow> beam_state \<Rightarrow>
   beam_state list" where
  "expand ora p t cp label0 scored st =
     map (\<lambda>(e, sc).
            let sent = (candidate_sentence st)[position e := substitute e]
            in \<lparr>candidate_sentence = sent,
                applied_edges = applied_edges st @ [e],
                cum_score = (if cp then contrastive ora p t label0 (detokenize ora t sent)
                             else combine ora (cum_score st) sc)\<rparr>)
         (filter (\<lambda>(e, sc). e \<notin> set (applied_edges st)) (sort_by higher_score scored))"

text \<open>
  Modelled from the spec: the flip of the glossary (GnnEditor is missing): the predicted label
  of the candidate differs from the one predicted for the original sentence.
\<close>

definition flipped :: "oracles \<Rightarrow> predictor \<Rightarrow> tokenizer \<Rightarrow> nat \<Rightarrow> beam_state \<Rightarrow> bool" where
  "flipped ora p t label0 st =
     (fst (predict ora p t (detokenize ora t (candidate_sentence st))) \<noteq> label0)"

text \<open>
  Modelled from the spec: the loop of section 4.5 (GnnEditor is missing): expand, keep the top
  \<open>w\<close> states, stop with the first member of the beam that flips the label, give up
  when the budget of edits is used up.
\<close>

fun search ::
  "(beam_state \<Rightarrow> bool) \<Rightarrow> (beam_state \<Rightarrow> beam_state list) \<Rightarrow> nat \<Rightarrow> nat \<Rightarrow> beam_state list \<Rightarrow>
   beam_state option" where
  "search accept succ w 0 beam = None"
| "search accept succ w (Suc n) beam =
     (let beam' = take w (sort_by ranks_above (concat (map succ beam)))
      in case find accept beam' of
           Some st \<Rightarrow> Some st
         | None \<Rightarrow> search accept succ w n beam')"

text \<open>
  Modelled from the spec: the planner of section 4.5 for one sentence (GnnEditor is missing): a
  sentence whose graph has no edge fails at once; the budget is the adaptive one when
  \<open>optimal_threshold\<close> is on, and is fixed for the search.
\<close>

definition plan ::
  "oracles \<Rightarrow> gnn \<Rightarrow> predictor \<Rightarrow> tokenizer \<Rightarrow> string option \<Rightarrow> relation \<Rightarrow> bool \<Rightarrow> bool \<Rightarrow> bool \<Rightarrow>
   string \<Rightarrow> beam_state option" where
  "plan ora m p t pf rel ef ot cp text =
     (let toks = tokenize ora t text;
          scored = score_graph ora m (build_graph ora toks pf rel ef);
          label0 = fst (predict ora p t text);
          b = (if ot then adaptive_budget ora toks scored else fixed_budget ora)
      in if scored = [] then None
         else search (flipped ora p t label0) (expand ora p t cp label0 scored) (beam_width ora) b
                [\<lparr>candidate_sentence = toks, applied_edges = [], cum_score = baseline ora\<rparr>])"

text \<open>
  Modelled from the spec: the Substitution Record of section 3 (GnnEditor is missing), a mapping
  from an original word to the substitutes accepted for it.
\<close>

definition record_edit :: "subs_dict \<Rightarrow> edge \<Rightarrow> subs_dict" where
  "record_edit d e =
     (case map_of d (original_word e) of
        None \<Rightarrow> d @ [(original_word e, [substitute e])]
      | Some ws \<Rightarrow>
          if substitute e \<in> set ws then d
          else map (\<lambda>(k, v). if k = original_word e then (k, v @ [substitute e]) else (k, v)) d)"

text \<open>
  Modelled from the spec: \<open>GnnEditor.pipeline\<close> (missing), by sections 4.5 and 6:
  every row of the text column is planned on its own; the output table has the original sentence
  and the counterfactual sentence, or a missing value on failure, per row; the edits of the
  accepted sentences go to the Substitution Record.
\<close>

definition GnnEditor_pipeline :: "oracles \<Rightarrow> editor" where
  "GnnEditor_pipeline ora d m p t ps an ef ot cp =
     (let cells = (case d of [] \<Rightarrow> [] | (c, xs) # _ \<Rightarrow> xs);
          rel = (if an = Some True then Antonym else Synonym);
          found = map (\<lambda>cell. case cell of
                                 None \<Rightarrow> None
                               | Some text \<Rightarrow> plan ora m p t ps rel ef ot cp text) cells
      in ([(''original sentence'', cells),
           (''counterfactual sentence'',
              map (map_option (\<lambda>st. detokenize ora t (candidate_sentence st))) found)],
          fold (\<lambda>r d. case r of
                         None \<Rightarrow> d
                       | Some st \<Rightarrow> fold (\<lambda>e d. record_edit d e) (applied_edges st) d) found []))"

subsection \<open>The planner as a relation\<close>

text \<open>
  The specification asks that the outcome of the planner be reproducible: it fixes by what the
  edges and the states are ranked and how ties are broken, and leaves the way of sorting to the
  implementer. The relations below say only that much: a run of the planner may use any
  list that is a ranking by the policy, wherever the planner above sorts.
\<close>


text \<open>
  Modelled from the spec: section 4.5 (GnnEditor is missing), states rank by descending score,
  ties by fewer edits: the key of a state is its negated score, then its number of edits.
\<close>

definition state_key :: "beam_state \<Rightarrow> real \<times> nat" where
  "state_key st = (- cum_score st, length (applied_edges st))"

text \<open>
  Modelled from the spec: the ranking policy of section 4.5 (GnnEditor is missing). A ranking
  of \<open>xs\<close> holds the elements of \<open>xs\<close>, in ascending order of their keys, and elements with
  equal keys stand in the order they have in \<open>xs\<close> (the original edge order).
\<close>

definition is_ranking :: "('a \<Rightarrow> 'k::linorder) \<Rightarrow> 'a list \<Rightarrow> 'a list \<Rightarrow> bool" where
  "is_ranking key xs r =
     (mset r = mset xs \<and> sorted (map key r) \<and>
      (\<forall>x \<in> set xs. filter (\<lambda>y. key x = key y) r = filter (\<lambda>y. key x = key y) xs))"


text \<open>
  Modelled from the spec: the loop of section 4.5 (GnnEditor is missing), with any expansion
  of each member of the beam and any ranking of the successors: the budget is used up, or a
  member of the pruned beam flips the label, or the search goes on from the pruned beam.
\<close>

inductive search_run ::
  "(beam_state \<Rightarrow> bool) \<Rightarrow> (beam_state \<Rightarrow> beam_state list \<Rightarrow> bool) \<Rightarrow> nat \<Rightarrow> nat \<Rightarrow>
   beam_state list \<Rightarrow> beam_state option \<Rightarrow> bool"
  for accept :: "beam_state \<Rightarrow> bool" and succ :: "beam_state \<Rightarrow> beam_state list \<Rightarrow> bool"
    and w :: nat where
  exhausted: "search_run accept succ w 0 beam None"
| flip: "\<lbrakk>list_all2 succ beam sss; is_ranking state_key (concat sss) r;
          find accept (take w r) = Some st\<rbrakk>
         \<Longrightarrow> search_run accept succ w (Suc n) beam (Some st)"
| prune: "\<lbrakk>list_all2 succ beam sss; is_ranking state_key (concat sss) r;
           find accept (take w r) = None; search_run accept succ w n (take w r) res\<rbrakk>
          \<Longrightarrow> search_run accept succ w (Suc n) beam res"



section \<open>Vocabulary of the statements\<close>

text \<open>
  A required reference (\<open>src_file\<close>, \<open>gnn_model_file\<close>, \<open>predictor_path\<close>) is missing when it
  is \<open>None\<close> or names a path that does not exist. The other predicates classify events.
\<close>

definition missing_ref :: "env \<Rightarrow> string option \<Rightarrow> bool" where
  "missing_ref env r = (case r of None \<Rightarrow> True | Some p \<Rightarrow> \<not> path_exists env p)"

fun is_JsonDump :: "event \<Rightarrow> bool" where
  "is_JsonDump (JsonDump j d) = True"
| "is_JsonDump _ = False"

fun is_ToCsv :: "event \<Rightarrow> bool" where
  "is_ToCsv (ToCsv f d i) = True"
| "is_ToCsv _ = False"

fun is_processing :: "event \<Rightarrow> bool" where
  "is_processing (GnnEditorPipeline gl d m p t ps an ef ot cp) = True"
| "is_processing (ToCsv f d i) = True"
| "is_processing (JsonDump j d) = True"
| "is_processing _ = False"

fun editor_sees_frozen :: "gnn \<Rightarrow> event \<Rightarrow> bool" where
  "editor_sees_frozen m0 (GnnEditorPipeline gl d m p t ps an ef ot cp) =
     (\<not> grad_enabled gl \<and> m = m0)"
| "editor_sees_frozen m0 _ = True"

section \<open>A concrete run\<close>

text \<open>
  A small environment, a small set of oracles and the generators built from them, on which the
  theorems below are instantiated.
\<close>

fun unwords :: "string list \<Rightarrow> string" where
  "unwords [] = []"
| "unwords [w] = w"
| "unwords (w # ws) = w @ '' '' @ unwords ws"

definition demo_oracles :: oracles where
  "demo_oracles =
     \<lparr>tokenize = (\<lambda>t s. if s = ''a great movie'' then [''a'', ''great'', ''movie'']
                        else if s = ''the plot'' then [''the'', ''plot''] else [s]),
      detokenize = (\<lambda>t. unwords),
      pos_tag = (\<lambda>toks i. if toks ! i = ''great'' then ''adj'' else ''other''),
      candidate_pos = (\<lambda>w. if w \<in> set [''poor'', ''fine'', ''grand''] then ''adj'' else ''other''),
      get_candidates = (\<lambda>w pf rel. if w = ''great'' then (if rel = Antonym then [''fine'', ''poor''] else [''grand'']) else []),
      gnn_forward = (\<lambda>m es. map (\<lambda>e. if substitute e = ''poor'' then 0.9 else 0.4) es),
      predict = (\<lambda>p t s. if s = ''a poor movie'' then (0, 0.8) else (1, 0.7)),
      contrastive = (\<lambda>p t l s. if s = ''a poor movie'' then 0.6 else 0.1),
      baseline = 0,
      combine = (+),
      beam_width = 3,
      fixed_budget = 2,
      adaptive_budget = (\<lambda>toks scored. length toks div 2)\<rparr>"

definition demo_gnn :: gnn where
  "demo_gnn = eval_mode (cuda (load_state_dict [0.5, -1] (Model 5 16 8)))"

definition demo_env :: env where
  "demo_env =
     \<lparr>path_exists = (\<lambda>p. p \<in> set [''reviews.csv'', ''gnn.pth'', ''predictor'']),
      read_csv = (\<lambda>p. [(''id'', [Some ''1'', Some ''2'', Some ''3'']),
                       (''sentences'', [Some ''a great movie'', Some ''the plot'', None])]),
      torch_load = (\<lambda>p. [0.5, -1]),
      predictor_from_pretrained = (\<lambda>p. DistilBertForSequenceClassification [1]),
      tokenizer_from_pretrained = DistilBertTokenizerFast\<rparr>"

definition demo_args :: args where
  "demo_args =
     \<lparr>arg_src_file = Some ''reviews.csv'', arg_col = Some ''sentences'', arg_dest_file = None,
      arg_json_file = None, arg_pos = Some ''adj'', arg_antonyms = Some True,
      arg_gnn_model_file = Some ''gnn.pth'', arg_predictor_path = Some ''predictor'',
      arg_edge_filter = Some True, arg_optimal_threshold = None,
      arg_use_contrastive_prob = None\<rparr>"

definition demo_generator :: generator where
  "demo_generator =
     \<lparr>sentences = [(''sentences'', [Some ''a great movie'', Some ''the plot'', None])],
      gnn_model = demo_gnn,
      predictor = DistilBertForSequenceClassification [1],
      tokenizer = DistilBertTokenizerFast ''distilbert-base-uncased'',
      dest_file = ''gnn_edits.csv'', json_file = None, pos = Some ''adj'', antonyms = Some True,
      edge_filter = True, opt_th = False, use_contrastive_prob = False,
      edits = None, subs_dict = None\<rparr>"

definition demo_globals :: globals where
  "demo_globals = module_toplevel torch_default"

definition demo_cells :: "string option list" where
  "demo_cells = [Some ''a great movie'', Some ''the plot'', None]"


definition demo_args_no_gnn :: args where
  "demo_args_no_gnn = demo_args\<lparr>arg_gnn_model_file := Some ''missing.pth''\<rparr>"

definition demo_generator_json :: generator where
  "demo_generator_json = demo_generator\<lparr>json_file := Some ''subs.json''\<rparr>"

definition demo_args_toggled :: args where
  "demo_args_toggled =
     demo_args\<lparr>arg_pos := None, arg_antonyms := None, arg_edge_filter := None,
       arg_optimal_threshold := Some True, arg_use_contrastive_prob := Some True\<rparr>"

definition demo_table' :: dataframe where
  "demo_table' =
     [(''sentences'', [Some ''a great movie'', Some ''the plot'', None]),
      (''label'', [Some ''1'', Some ''0'', Some ''0''])]"

definition demo_args_dest :: args where
  "demo_args_dest = demo_args\<lparr>arg_dest_file := Some ''out/edits.csv''\<rparr>"

definition demo_args_unset :: args where
  "demo_args_unset = demo_args\<lparr>arg_antonyms := None, arg_edge_filter := None\<rparr>"

section \<open>The effects of the methods\<close>

lemma bind_io_Inr: "bind_io (Inr x, tr) f = (fst (f x), tr @ snd (f x))"
  by (simp add: bind_io_def split: prod.splits)

lemma bind_io_Inl: "bind_io (Inl e, tr) f = (Inl e, tr)"
  by (simp add: bind_io_def)

lemma bind_io_return: "bind_io (return_io x) f = f x"
  by (simp add: bind_io_def return_io_def split: prod.splits)

lemma bind_io_print: "bind_io (print_io s) f = (fst (f ()), Print s # snd (f ()))"
  by (simp add: bind_io_def print_io_def split: prod.splits)

lemma bind_io_error_exit: "bind_io (error_exit msg) f = (Inl (SystemExit 1), [Print msg])"
  by (simp add: bind_io_def error_exit_def print_io_def exit_io_def)

lemma bind_io_raise: "bind_io (raise_io e) f = (Inl (Raised e), [])"
  by (simp add: bind_io_def raise_io_def)

lemmas io_simps = bind_io_Inr bind_io_Inl bind_io_return bind_io_print bind_io_error_exit bind_io_raise

lemma generate_counterfactuals_eq:
  "generate_counterfactuals E gl self =
     (Inr (self\<lparr>edits := Some (fst (E (sentences self) (gnn_model self) (predictor self) (tokenizer self)
                (pos self) (antonyms self) (edge_filter self) (opt_th self) (use_contrastive_prob self))),
            subs_dict := Some (snd (E (sentences self) (gnn_model self) (predictor self) (tokenizer self)
                (pos self) (antonyms self) (edge_filter self) (opt_th self) (use_contrastive_prob self)))\<rparr>),
      [Print ''[INFO]: Generating counterfactuals...'',
       GnnEditorPipeline gl (sentences self) (gnn_model self) (predictor self) (tokenizer self)
                (pos self) (antonyms self) (edge_filter self) (opt_th self) (use_contrastive_prob self)])"
  by (simp add: generate_counterfactuals_def run_editor_def io_simps return_io_def)

lemma export_to_csv_eq:
  "edits self = Some e \<Longrightarrow> export_to_csv self =
     (Inr self,
      [Print (''[INFO]: Exporting generated counterfactuals to '' @ dest_file self @ ''...''),
       ToCsv (dest_file self) e False] @
      (case json_file self of None \<Rightarrow> []
       | Some j \<Rightarrow> [Print (''[INFO]: Exporting substitution dictionary to '' @ j @ ''...''),
                    JsonDump j (subs_dict self)]))"
  by (simp add: export_to_csv_def io_simps return_io_def print_io_def split: option.splits)

lemma pipeline_eq:
  "pipeline E gl self =
     (Inr (),
      [Print ''[INFO]: Generating counterfactuals...'',
       GnnEditorPipeline gl (sentences self) (gnn_model self) (predictor self) (tokenizer self)
                (pos self) (antonyms self) (edge_filter self) (opt_th self) (use_contrastive_prob self),
       Print (''[INFO]: Exporting generated counterfactuals to '' @ dest_file self @ ''...''),
       ToCsv (dest_file self) (fst (E (sentences self) (gnn_model self) (predictor self) (tokenizer self)
                (pos self) (antonyms self) (edge_filter self) (opt_th self) (use_contrastive_prob self))) False] @
      (case json_file self of None \<Rightarrow> []
       | Some j \<Rightarrow> [Print (''[INFO]: Exporting substitution dictionary to '' @ j @ ''...''),
                    JsonDump j (Some (snd (E (sentences self) (gnn_model self) (predictor self) (tokenizer self)
                (pos self) (antonyms self) (edge_filter self) (opt_th self) (use_contrastive_prob self))))]))"
  by (simp add: pipeline_def generate_counterfactuals_eq export_to_csv_eq io_simps return_io_def split: option.splits)

section \<open>The outcomes of construction\<close>

lemma init_success:
  assumes "arg_src_file a = Some s" "path_exists env s" "arg_col a = Some c"
    "map_of (read_csv env s) c = Some cells" "arg_gnn_model_file a = Some gf"
    "path_exists env gf" "arg_predictor_path a = Some pp" "path_exists env pp"
  shows "GnnGenerator_init env a = (Inr 
      \<lparr>sentences = [(c, cells)],
        gnn_model = eval_mode (cuda (load_state_dict (torch_load env gf) (Model 5 16 8))),
        predictor = predictor_from_pretrained env pp,
        tokenizer = tokenizer_from_pretrained env ''distilbert-base-uncased'',
        dest_file = (case arg_dest_file a of None \<Rightarrow> ''gnn_edits.csv'' | Some d \<Rightarrow> d),
        json_file = arg_json_file a,
        pos = arg_pos a,
        antonyms = arg_antonyms a,
        edge_filter = (case arg_edge_filter a of Some b \<Rightarrow> b | None \<Rightarrow> False),
        opt_th = (case arg_optimal_threshold a of Some b \<Rightarrow> b | None \<Rightarrow> False),
        use_contrastive_prob = (case arg_use_contrastive_prob a of Some b \<Rightarrow> b | None \<Rightarrow> False),
        edits = None,
        subs_dict = None\<rparr>, [])"
  using assms
  by (simp add: GnnGenerator_init_def select_columns_def io_simps return_io_def)

lemma init_src_missing:
  "missing_ref env (arg_src_file a) \<Longrightarrow> \<exists>msg. GnnGenerator_init env a = (Inl (SystemExit 1), [Print (''[ERROR]: '' @ msg)])"
  by (cases "arg_src_file a") (simp_all add: GnnGenerator_init_def missing_ref_def io_simps)

lemma init_col_missing:
  "arg_col a = None \<Longrightarrow> \<exists>msg. GnnGenerator_init env a = (Inl (SystemExit 1), [Print (''[ERROR]: '' @ msg)])"
  by (cases "arg_src_file a") (simp_all add: GnnGenerator_init_def io_simps)

lemma init_col_absent:
  "\<lbrakk>arg_src_file a = Some s; path_exists env s; arg_col a = Some c; map_of (read_csv env s) c = None\<rbrakk>
   \<Longrightarrow> GnnGenerator_init env a = (Inl (Raised (KeyError c)), [])"
  by (simp add: GnnGenerator_init_def io_simps select_columns_def)

lemma init_gnn_missing:
  "\<lbrakk>arg_src_file a = Some s; path_exists env s; arg_col a = Some c; map_of (read_csv env s) c = Some cells;
    missing_ref env (arg_gnn_model_file a)\<rbrakk>
   \<Longrightarrow> \<exists>msg. GnnGenerator_init env a = (Inl (SystemExit 1), [Print (''[ERROR]: '' @ msg)])"
  by (cases "arg_gnn_model_file a") (simp_all add: GnnGenerator_init_def io_simps select_columns_def missing_ref_def)

lemma init_predictor_missing:
  "\<lbrakk>arg_src_file a = Some s; path_exists env s; arg_col a = Some c; map_of (read_csv env s) c = Some cells;
    arg_gnn_model_file a = Some gf; path_exists env gf;
    missing_ref env (arg_predictor_path a)\<rbrakk>
   \<Longrightarrow> \<exists>msg. GnnGenerator_init env a = (Inl (SystemExit 1), [Print (''[ERROR]: '' @ msg)])"
  by (cases "arg_predictor_path a") (simp_all add: GnnGenerator_init_def io_simps select_columns_def missing_ref_def)

lemma demo_init: "GnnGenerator_init demo_env demo_args = (Inr demo_generator, [])"
  by code_simp

lemma init_valid:
  assumes "GnnGenerator_init env a = (Inr g, tr)"
  shows "\<exists>s c cells gf pp. arg_src_file a = Some s \<and> path_exists env s \<and> arg_col a = Some c \<and>
    map_of (read_csv env s) c = Some cells \<and> arg_gnn_model_file a = Some gf \<and>
    path_exists env gf \<and> arg_predictor_path a = Some pp \<and> path_exists env pp"
proof -
  have "\<not> missing_ref env (arg_src_file a)"
    using init_src_missing [of env a] assms by auto
  then obtain s where s: "arg_src_file a = Some s" "path_exists env s"
    by (auto simp: missing_ref_def split: option.splits)
  have "arg_col a \<noteq> None"
    using init_col_missing [of a env] assms by auto
  then obtain c where c: "arg_col a = Some c" by auto
  have "map_of (read_csv env s) c \<noteq> None"
    using init_col_absent [OF s c] assms by auto
  then obtain cells where cells: "map_of (read_csv env s) c = Some cells" by auto
  have "\<not> missing_ref env (arg_gnn_model_file a)"
    using init_gnn_missing [OF s c cells] assms by auto
  then obtain gf where gf: "arg_gnn_model_file a = Some gf" "path_exists env gf"
    by (auto simp: missing_ref_def split: option.splits)
  have "\<not> missing_ref env (arg_predictor_path a)"
    using init_predictor_missing [OF s c cells gf] assms by auto
  then obtain pp where pp: "arg_predictor_path a = Some pp" "path_exists env pp"
    by (auto simp: missing_ref_def split: option.splits)
  show ?thesis using s c cells gf pp by blast
qed

lemma init_fields:
  assumes "GnnGenerator_init env a = (Inr g, tr)"
  shows "tr = []"
    and "dest_file g = (case arg_dest_file a of None \<Rightarrow> ''gnn_edits.csv'' | Some d \<Rightarrow> d)"
    and "json_file g = arg_json_file a"
    and "pos g = arg_pos a"
    and "antonyms g = arg_antonyms a"
    and "edge_filter g = (case arg_edge_filter a of Some b \<Rightarrow> b | None \<Rightarrow> False)"
    and "opt_th g = (case arg_optimal_threshold a of Some b \<Rightarrow> b | None \<Rightarrow> False)"
    and "use_contrastive_prob g = (case arg_use_contrastive_prob a of Some b \<Rightarrow> b | None \<Rightarrow> False)"
    and "edits g = None" and "subs_dict g = None"
    and "\<not> training (gnn_model g)" and "device (gnn_model g) = Cuda"
proof -
  obtain s c cells gf pp where v: "arg_src_file a = Some s" "path_exists env s" "arg_col a = Some c"
    "map_of (read_csv env s) c = Some cells" "arg_gnn_model_file a = Some gf"
    "path_exists env gf" "arg_predictor_path a = Some pp" "path_exists env pp"
    using init_valid [OF assms] by blast
  note eq = assms [unfolded init_success [OF v]]
  from eq show "tr = []" by simp
  from eq show "dest_file g = (case arg_dest_file a of None \<Rightarrow> ''gnn_edits.csv'' | Some d \<Rightarrow> d)" by auto
  from eq show "json_file g = arg_json_file a" by auto
  from eq show "pos g = arg_pos a" by auto
  from eq show "antonyms g = arg_antonyms a" by auto
  from eq show "edge_filter g = (case arg_edge_filter a of Some b \<Rightarrow> b | None \<Rightarrow> False)" by auto
  from eq show "opt_th g = (case arg_optimal_threshold a of Some b \<Rightarrow> b | None \<Rightarrow> False)" by auto
  from eq show "use_contrastive_prob g = (case arg_use_contrastive_prob a of Some b \<Rightarrow> b | None \<Rightarrow> False)" by auto
  from eq show "edits g = None" by auto
  from eq show "subs_dict g = None" by auto
  from eq show "\<not> training (gnn_model g)" by (auto simp: eval_mode_def)
  from eq show "device (gnn_model g) = Cuda" by (auto simp: eval_mode_def cuda_def)
qed

lemma init_loaded:
  assumes "GnnGenerator_init env a = (Inr g, tr)"
  shows "\<exists>s c cells gf pp. arg_src_file a = Some s \<and> arg_col a = Some c \<and>
     map_of (read_csv env s) c = Some cells \<and> sentences g = [(c, cells)] \<and>
     arg_gnn_model_file a = Some gf \<and> state_dict (gnn_model g) = Some (torch_load env gf) \<and>
     arg_predictor_path a = Some pp \<and> predictor g = predictor_from_pretrained env pp \<and>
     tokenizer g = tokenizer_from_pretrained env ''distilbert-base-uncased''"
proof -
  obtain s c cells gf pp where v: "arg_src_file a = Some s" "path_exists env s" "arg_col a = Some c"
    "map_of (read_csv env s) c = Some cells" "arg_gnn_model_file a = Some gf"
    "path_exists env gf" "arg_predictor_path a = Some pp" "path_exists env pp"
    using init_valid [OF assms] by blast
  note eq = assms [unfolded init_success [OF v]]
  from eq have "sentences g = [(c, cells)]" by auto
  moreover from eq have "state_dict (gnn_model g) = Some (torch_load env gf)"
    by (auto simp: eval_mode_def cuda_def load_state_dict_def)
  moreover from eq have "predictor g = predictor_from_pretrained env pp" by auto
  moreover from eq have "tokenizer g = tokenizer_from_pretrained env ''distilbert-base-uncased''" by auto
  ultimately show ?thesis using v by blast
qed

lemma main_eq:
  assumes "GnnGenerator_init env a = (Inr g, tr0)"
  shows "main env E gl a = (Inr (), snd (pipeline E gl g) @ [PrintExecutionTime])"
  using assms init_fields(1) [OF assms]
  by (simp add: main_def io_simps pipeline_eq)

lemma main_failure:
  assumes "GnnGenerator_init env a = (Inl f, tr0)"
  shows "main env E gl a = (Inl f, tr0)"
  using assms by (simp add: main_def io_simps)

section \<open>The planner accepts only flips\<close>

lemma search_accepts:
  "search accept succ w n beam = Some st \<Longrightarrow> accept st"
proof (induction n arbitrary: beam)
  case 0
  then show ?case by simp
next
  case (Suc n)
  let ?b = "take w (sort_by ranks_above (concat (map succ beam)))"
  show ?case
  proof (cases "find accept ?b")
    case None
    with Suc.prems have "search accept succ w n ?b = Some st" by (simp add: Let_def)
    then show ?thesis by (rule Suc.IH)
  next
    case (Some x)
    with Suc.prems have "x = st" by (simp add: Let_def)
    with Some show ?thesis by (auto simp: find_Some_iff)
  qed
qed

lemma plan_flips:
  assumes "plan ora m p t pf rel ef ot cp text = Some st"
  shows "fst (predict ora p t (detokenize ora t (candidate_sentence st))) \<noteq> fst (predict ora p t text)"
proof -
  from assms have "\<exists>b beam scored. search (flipped ora p t (fst (predict ora p t text)))
      (expand ora p t cp (fst (predict ora p t text)) scored) (beam_width ora) b beam = Some st"
    by (auto simp: plan_def Let_def split: if_splits)
  then have "flipped ora p t (fst (predict ora p t text)) st"
    using search_accepts by blast
  then show ?thesis by (simp add: flipped_def)
qed

lemma editor_edits:
  "fst (GnnEditor_pipeline ora [(c, cells)] m p t ps an ef ot cp) =
     [(''original sentence'', cells),
      (''counterfactual sentence'',
         map (\<lambda>cell. case cell of None \<Rightarrow> None
                | Some text \<Rightarrow> map_option (\<lambda>st. detokenize ora t (candidate_sentence st))
                     (plan ora m p t ps (if an = Some True then Antonym else Synonym) ef ot cp text)) cells)]"
  by (simp add: GnnEditor_pipeline_def Let_def option.map_comp comp_def split: option.splits cong: map_cong)

section \<open>The ranking policy determines every run\<close>

text \<open>
  Sortedness alone leaves ties open: two states with the same key can stand in either order.
  The third clause of \<open>is_ranking\<close> closes them.
\<close>

lemma sorted_permutation_not_unique:
  "mset [(0::nat, True), (0, False)] = mset [(0, False), (0, True)] \<and>
   sorted (map fst [(0::nat, True), (0, False)]) \<and> sorted (map fst [(0::nat, False), (0, True)]) \<and>
   [(0::nat, True), (0, False)] \<noteq> [(0, False), (0, True)]"
  by simp















section \<open>Facts of the concrete run\<close>

lemma demo_sentences: "sentences demo_generator = [(''sentences'', demo_cells)]"
  by (simp add: demo_generator_def demo_cells_def)

lemma demo_editor_run:
  "GnnEditor_pipeline demo_oracles [(''sentences'', demo_cells)] demo_gnn
     (DistilBertForSequenceClassification [1]) (DistilBertTokenizerFast ''distilbert-base-uncased'')
     (Some ''adj'') (Some True) True False False =
   ([(''original sentence'', demo_cells),
     (''counterfactual sentence'', [Some ''a poor movie'', None, None])],
    [(''great'', [''poor''])])"
  by code_simp


lemma demo_generate:
  "fst (generate_counterfactuals (GnnEditor_pipeline demo_oracles) demo_globals demo_generator) =
     Inr (demo_generator
       \<lparr>edits := Some [(''original sentence'', demo_cells),
                       (''counterfactual sentence'', [Some ''a poor movie'', None, None])],
        subs_dict := Some [(''great'', [''poor''])]\<rparr>)"
  using demo_editor_run
  by (simp add: generate_counterfactuals_eq demo_generator_def demo_cells_def)

lemma demo_init_dest:
  "GnnGenerator_init demo_env demo_args_dest = (Inr (demo_generator\<lparr>dest_file := ''out/edits.csv''\<rparr>), [])"
  by code_simp

lemma demo_init_unset:
  "GnnGenerator_init demo_env demo_args_unset =
     (Inr (demo_generator\<lparr>antonyms := None, edge_filter := False\<rparr>), [])"
  by code_simp

section \<open>The claims\<close>

text \<open>
  Claim C1. For every processed sentence, a candidate is emitted as the counterfactual only
  if the classifier predicts another label for it than for the original sentence; a sentence
  whose search ends without such a flip gets no edit. The planner is the one modelled from
  the specification. Whatever the generator holds as its one text column, generating returns,
  the edits have one counterfactual cell per row, and a cell that is not empty holds a
  sentence whose predicted label differs from the label predicted for the sentence of that
  row; so a row for which no flip was found holds the missing value.
\<close>

theorem counterfactual_only_if_flip:
  assumes "sentences g = [(c, cells)]"
  shows "\<exists>g' tr cfs. generate_counterfactuals (GnnEditor_pipeline ora) gl g = (Inr g', tr) \<and>
     edits g' = Some [(''original sentence'', cells), (''counterfactual sentence'', cfs)] \<and>
     length cfs = length cells \<and>
     (\<forall>i < length cells.
        case cfs ! i of
          None \<Rightarrow> True
        | Some cf \<Rightarrow> (\<exists>text. cells ! i = Some text \<and>
            fst (predict ora (predictor g) (tokenizer g) cf) \<noteq>
            fst (predict ora (predictor g) (tokenizer g) text)))"
proof -
  let ?rel = "if antonyms g = Some True then Antonym else Synonym"
  let ?plan = "plan ora (gnn_model g) (predictor g) (tokenizer g) (pos g) ?rel (edge_filter g)
      (opt_th g) (use_contrastive_prob g)"
  let ?f = "\<lambda>cell. case cell of None \<Rightarrow> None
              | Some text \<Rightarrow> map_option (\<lambda>st. detokenize ora (tokenizer g) (candidate_sentence st)) (?plan text)"
  have row: "case ?f cell of None \<Rightarrow> True
      | Some cf \<Rightarrow> (\<exists>text. cell = Some text \<and>
            fst (predict ora (predictor g) (tokenizer g) cf) \<noteq>
            fst (predict ora (predictor g) (tokenizer g) text))" for cell
    by (auto split: option.splits dest: plan_flips)
  have "\<forall>i < length cells. case map ?f cells ! i of None \<Rightarrow> True
      | Some cf \<Rightarrow> (\<exists>text. cells ! i = Some text \<and>
            fst (predict ora (predictor g) (tokenizer g) cf) \<noteq>
            fst (predict ora (predictor g) (tokenizer g) text))"
    using row by simp
  then show ?thesis
    using assms by (simp add: generate_counterfactuals_eq editor_edits)
qed

theorem counterfactual_only_if_flip_witness:
  "sentences demo_generator = [(''sentences'', demo_cells)] \<and>
   fst (generate_counterfactuals (GnnEditor_pipeline demo_oracles) demo_globals demo_generator) =
     Inr (demo_generator
       \<lparr>edits := Some [(''original sentence'', demo_cells),
                       (''counterfactual sentence'', [Some ''a poor movie'', None, None])],
        subs_dict := Some [(''great'', [''poor''])]\<rparr>) \<and>
   fst (predict demo_oracles (predictor demo_generator) (tokenizer demo_generator) ''a poor movie'') \<noteq>
   fst (predict demo_oracles (predictor demo_generator) (tokenizer demo_generator) ''a great movie'')"
proof -
  obtain g' tr cfs where
    run: "generate_counterfactuals (GnnEditor_pipeline demo_oracles) demo_globals demo_generator = (Inr g', tr)"
    and ed: "edits g' = Some [(''original sentence'', demo_cells), (''counterfactual sentence'', cfs)]"
    and flip: "\<forall>i < length demo_cells.
        case cfs ! i of
          None \<Rightarrow> True
        | Some cf \<Rightarrow> (\<exists>text. demo_cells ! i = Some text \<and>
            fst (predict demo_oracles (predictor demo_generator) (tokenizer demo_generator) cf) \<noteq>
            fst (predict demo_oracles (predictor demo_generator) (tokenizer demo_generator) text))"
    using counterfactual_only_if_flip [OF demo_sentences, of demo_oracles demo_globals] by blast
  from run ed demo_generate have cfs: "cfs = [Some ''a poor movie'', None, None]" by simp
  from flip have "case cfs ! 0 of
          None \<Rightarrow> True
        | Some cf \<Rightarrow> (\<exists>text. demo_cells ! 0 = Some text \<and>
            fst (predict demo_oracles (predictor demo_generator) (tokenizer demo_generator) cf) \<noteq>
            fst (predict demo_oracles (predictor demo_generator) (tokenizer demo_generator) text))"
    by (simp add: demo_cells_def)
  then have "fst (predict demo_oracles (predictor demo_generator) (tokenizer demo_generator) ''a poor movie'') \<noteq>
   fst (predict demo_oracles (predictor demo_generator) (tokenizer demo_generator) ''a great movie'')"
    unfolding cfs by (simp add: demo_cells_def)
  with demo_sentences demo_generate show ?thesis by simp
qed



text \<open>
  Claim C3. When a required reference is missing (\<open>src_file\<close>, \<open>gnn_model_file\<close> or
  \<open>predictor_path\<close> is \<open>None\<close> or names no existing path, or \<open>col\<close> is \<open>None\<close>), construction fails
  and so does the script, with the trace of the construction alone: no editor run and no
  file written. The failure is \<open>exit(1)\<close> right after one printed line that starts with
  \<open>[ERROR]: \<close>; the one other way out is the uncaught \<open>KeyError\<close> of line 93, when the source
  file exists, the column is named and the table has no such column, which the interpreter
  reports before the later references are looked at.
\<close>

theorem config_error_fatal:
  assumes "missing_ref env (arg_src_file a) \<or> arg_col a = None \<or>
           missing_ref env (arg_gnn_model_file a) \<or> missing_ref env (arg_predictor_path a)"
  shows "\<exists>f tr. GnnGenerator_init env a = (Inl f, tr) \<and> script env E a = (Inl f, tr) \<and>
           filter is_processing tr = [] \<and>
           ((\<exists>msg. f = SystemExit 1 \<and> tr = [Print (''[ERROR]: '' @ msg)]) \<or>
            (\<exists>s c. f = Raised (KeyError c) \<and> tr = [] \<and> arg_src_file a = Some s \<and>
                   path_exists env s \<and> arg_col a = Some c \<and> map_of (read_csv env s) c = None))"
proof -
  have "(\<exists>msg. GnnGenerator_init env a = (Inl (SystemExit 1), [Print (''[ERROR]: '' @ msg)])) \<or>
        (\<exists>s c. GnnGenerator_init env a = (Inl (Raised (KeyError c)), []) \<and> arg_src_file a = Some s \<and>
                   path_exists env s \<and> arg_col a = Some c \<and> map_of (read_csv env s) c = None)"
  proof (cases "missing_ref env (arg_src_file a)")
    case True
    then show ?thesis using init_src_missing by blast
  next
    case src: False
    then obtain s where s: "arg_src_file a = Some s" "path_exists env s"
      by (auto simp: missing_ref_def split: option.splits)
    show ?thesis
    proof (cases "arg_col a")
      case None
      then show ?thesis using init_col_missing by blast
    next
      case (Some c)
      show ?thesis
      proof (cases "map_of (read_csv env s) c")
        case None
        then show ?thesis using init_col_absent [OF s Some] s Some by blast
      next
        case cells: (Some cells)
        show ?thesis
        proof (cases "missing_ref env (arg_gnn_model_file a)")
          case True
          then show ?thesis using init_gnn_missing [OF s Some cells] by blast
        next
          case False
          then obtain gf where gf: "arg_gnn_model_file a = Some gf" "path_exists env gf"
            by (auto simp: missing_ref_def split: option.splits)
          from assms src Some False have "missing_ref env (arg_predictor_path a)" by simp
          then show ?thesis using init_predictor_missing [OF s Some cells gf] by blast
        qed
      qed
    qed
  qed
  then show ?thesis
    by (auto simp: script_def main_failure)
qed

theorem config_error_fatal_witness:
  "missing_ref demo_env (arg_gnn_model_file demo_args_no_gnn) \<and>
   script demo_env (GnnEditor_pipeline demo_oracles) demo_args_no_gnn =
     (Inl (SystemExit 1), [Print ''[ERROR]: File missing.pth does not exist''])"
proof -
  have m: "missing_ref demo_env (arg_gnn_model_file demo_args_no_gnn)"
    by (simp add: missing_ref_def demo_args_no_gnn_def demo_env_def)
  have i: "GnnGenerator_init demo_env demo_args_no_gnn =
     (Inl (SystemExit 1), [Print ''[ERROR]: File missing.pth does not exist''])"
    by code_simp
  from m have "missing_ref demo_env (arg_src_file demo_args_no_gnn) \<or> arg_col demo_args_no_gnn = None \<or>
           missing_ref demo_env (arg_gnn_model_file demo_args_no_gnn) \<or>
           missing_ref demo_env (arg_predictor_path demo_args_no_gnn)" by simp
  from config_error_fatal [OF this, of "GnnEditor_pipeline demo_oracles"] i m show ?thesis by auto
qed

text \<open>
  Claim C4, as amended. The claim says that every batch run persists the Substitution Record
  exactly once. The code writes it only under the guard \<open>if self.json_file is not None\<close>: with
  a \<open>json_file\<close> the dictionary that the editor returned is dumped exactly once, as the last
  effect of \<open>pipeline\<close>, after the editor has processed the sentences and after the edits are
  written; without one it is never persisted. The trace of \<open>pipeline\<close> is given in full.
\<close>

theorem substitution_record_persistence:
  "snd (pipeline E gl self) =
     [Print ''[INFO]: Generating counterfactuals...'',
      GnnEditorPipeline gl (sentences self) (gnn_model self) (predictor self) (tokenizer self)
        (pos self) (antonyms self) (edge_filter self) (opt_th self) (use_contrastive_prob self),
      Print (''[INFO]: Exporting generated counterfactuals to '' @ dest_file self @ ''...''),
      ToCsv (dest_file self)
        (fst (E (sentences self) (gnn_model self) (predictor self) (tokenizer self)
           (pos self) (antonyms self) (edge_filter self) (opt_th self) (use_contrastive_prob self)))
        False] @
     (case json_file self of
        None \<Rightarrow> []
      | Some j \<Rightarrow>
          [Print (''[INFO]: Exporting substitution dictionary to '' @ j @ ''...''),
           JsonDump j (Some (snd (E (sentences self) (gnn_model self) (predictor self)
             (tokenizer self) (pos self) (antonyms self) (edge_filter self) (opt_th self)
             (use_contrastive_prob self))))]) \<and>
   length (filter is_JsonDump (snd (pipeline E gl self))) =
     (case json_file self of None \<Rightarrow> 0 | Some j \<Rightarrow> 1)"
  by (simp add: pipeline_eq split: option.splits)

text \<open>A run of the script without \<open>json_file\<close> completes and never writes the Substitution Record.\<close>

theorem substitution_record_not_persisted:
  "fst (script demo_env (GnnEditor_pipeline demo_oracles) demo_args) = Inr () \<and>
   length (filter is_JsonDump (snd (script demo_env (GnnEditor_pipeline demo_oracles) demo_args))) = 0"
  by code_simp

theorem substitution_record_persistence_witness:
  "length (filter is_JsonDump
     (snd (pipeline (GnnEditor_pipeline demo_oracles) demo_globals demo_generator_json))) = 1 \<and>
   length (filter is_JsonDump
     (snd (pipeline (GnnEditor_pipeline demo_oracles) demo_globals demo_generator))) = 0 \<and>
   last (snd (pipeline (GnnEditor_pipeline demo_oracles) demo_globals demo_generator_json)) =
     JsonDump ''subs.json'' (Some [(''great'', [''poor''])])"
proof -
  have j: "json_file demo_generator_json = Some ''subs.json''" "json_file demo_generator = None"
    by (simp_all add: demo_generator_json_def demo_generator_def)
  have f: "sentences demo_generator_json = [(''sentences'', demo_cells)]"
    "gnn_model demo_generator_json = demo_gnn"
    "predictor demo_generator_json = DistilBertForSequenceClassification [1]"
    "tokenizer demo_generator_json = DistilBertTokenizerFast ''distilbert-base-uncased''"
    "pos demo_generator_json = Some ''adj''" "antonyms demo_generator_json = Some True"
    "edge_filter demo_generator_json = True" "opt_th demo_generator_json = False"
    "use_contrastive_prob demo_generator_json = False"
    by (simp_all add: demo_generator_json_def demo_generator_def demo_cells_def)
  from substitution_record_persistence [of "GnnEditor_pipeline demo_oracles" demo_globals demo_generator_json]
    substitution_record_persistence [of "GnnEditor_pipeline demo_oracles" demo_globals demo_generator]
  show ?thesis
    unfolding j f demo_editor_run by simp
qed

text \<open>
  Claim C5. Every combination of the five settings is accepted. When the required references
  are valid and the table has the column, then for every value of \<open>pos\<close>, \<open>antonyms\<close>,
  \<open>edge_filter\<close>, \<open>optimal_threshold\<close> and \<open>use_contrastive_prob\<close> (each may also be unset)
  construction succeeds, the script runs to its end, and the editor is run with these
  settings.
\<close>

theorem toggles_accepted:
  assumes "arg_src_file a = Some s" "path_exists env s" "arg_col a = Some c"
    "map_of (read_csv env s) c = Some cells" "arg_gnn_model_file a = Some gf"
    "path_exists env gf" "arg_predictor_path a = Some pp" "path_exists env pp"
  shows "\<exists>g tr d m p t. 
     GnnGenerator_init env (a\<lparr>arg_pos := ps, arg_antonyms := an, arg_edge_filter := ef,
         arg_optimal_threshold := ot, arg_use_contrastive_prob := cp\<rparr>) = (Inr g, []) \<and>
     script env E (a\<lparr>arg_pos := ps, arg_antonyms := an, arg_edge_filter := ef,
         arg_optimal_threshold := ot, arg_use_contrastive_prob := cp\<rparr>) = (Inr (), tr) \<and>
     GnnEditorPipeline (module_toplevel torch_default) d m p t ps an
       (case ef of Some b \<Rightarrow> b | None \<Rightarrow> False)
       (case ot of Some b \<Rightarrow> b | None \<Rightarrow> False)
       (case cp of Some b \<Rightarrow> b | None \<Rightarrow> False) \<in> set tr"
proof -
  let ?a = "a\<lparr>arg_pos := ps, arg_antonyms := an, arg_edge_filter := ef,
         arg_optimal_threshold := ot, arg_use_contrastive_prob := cp\<rparr>"
  have v: "arg_src_file ?a = Some s" "path_exists env s" "arg_col ?a = Some c"
    "map_of (read_csv env s) c = Some cells" "arg_gnn_model_file ?a = Some gf"
    "path_exists env gf" "arg_predictor_path ?a = Some pp" "path_exists env pp"
    using assms by simp_all
  note i = init_success [OF v]
  show ?thesis
    unfolding script_def main_eq [OF i] by (simp add: i pipeline_eq)
qed

theorem toggles_accepted_witness:
  "arg_src_file demo_args = Some ''reviews.csv'' \<and> path_exists demo_env ''reviews.csv'' \<and>
   arg_col demo_args = Some ''sentences'' \<and>
   map_of (read_csv demo_env ''reviews.csv'') ''sentences'' = Some demo_cells \<and>
   arg_gnn_model_file demo_args = Some ''gnn.pth'' \<and> path_exists demo_env ''gnn.pth'' \<and>
   arg_predictor_path demo_args = Some ''predictor'' \<and> path_exists demo_env ''predictor'' \<and>
   (\<exists>g tr d m p t.
      GnnGenerator_init demo_env demo_args_toggled = (Inr g, []) \<and>
      script demo_env (GnnEditor_pipeline demo_oracles) demo_args_toggled = (Inr (), tr) \<and>
      GnnEditorPipeline (module_toplevel torch_default) d m p t None None False True True \<in> set tr)"
proof -
  have h: "arg_src_file demo_args = Some ''reviews.csv''" "path_exists demo_env ''reviews.csv''"
    "arg_col demo_args = Some ''sentences''"
    "map_of (read_csv demo_env ''reviews.csv'') ''sentences'' = Some demo_cells"
    "arg_gnn_model_file demo_args = Some ''gnn.pth''" "path_exists demo_env ''gnn.pth''"
    "arg_predictor_path demo_args = Some ''predictor''" "path_exists demo_env ''predictor''"
    by (simp_all add: demo_args_def demo_env_def demo_cells_def)
  from toggles_accepted [OF h, where ps = None and an = None and ef = None and ot = "Some True"
      and cp = "Some True" and E = "GnnEditor_pipeline demo_oracles"] h
  show ?thesis
    unfolding demo_args_toggled_def by simp
qed

text \<open>
  Claim C6. The GNN is used for inference only. After construction the model is in eval mode
  and holds the weights loaded from \<open>gnn_model_file\<close>; in a run of the script every call of
  the editor happens with gradients globally disabled (line 61) and is given exactly this
  model; and neither \<open>generate_counterfactuals\<close> nor \<open>export_to_csv\<close> changes the model that
  the generator holds. The editor is any function of the model it is given.
\<close>

theorem gnn_inference_only:
  assumes "GnnGenerator_init env a = (Inr g, tr0)"
  shows "\<not> training (gnn_model g) \<and>
     (\<exists>gf. arg_gnn_model_file a = Some gf \<and> state_dict (gnn_model g) = Some (torch_load env gf)) \<and>
     (\<exists>tr. script env E a = (Inr (), tr) \<and> (\<forall>ev \<in> set tr. editor_sees_frozen (gnn_model g) ev) \<and>
        (\<exists>ev \<in> set tr. is_processing ev)) \<and>
     (\<exists>g' tr' g'' tr''. generate_counterfactuals E gl g = (Inr g', tr') \<and> gnn_model g' = gnn_model g \<and>
        export_to_csv g' = (Inr g'', tr'') \<and> gnn_model g'' = gnn_model g)"
proof -
  have 1: "\<not> training (gnn_model g)" using init_fields(11) [OF assms] .
  have 2: "\<exists>gf. arg_gnn_model_file a = Some gf \<and> state_dict (gnn_model g) = Some (torch_load env gf)"
    using init_loaded [OF assms] by blast
  have 3: "\<exists>tr. script env E a = (Inr (), tr) \<and> (\<forall>ev \<in> set tr. editor_sees_frozen (gnn_model g) ev) \<and>
        (\<exists>ev \<in> set tr. is_processing ev)"
    unfolding script_def main_eq [OF assms]
    by (auto simp add: pipeline_eq module_toplevel_def split: option.splits)
  have 4: "\<exists>g' tr' g'' tr''. generate_counterfactuals E gl g = (Inr g', tr') \<and> gnn_model g' = gnn_model g \<and>
        export_to_csv g' = (Inr g'', tr'') \<and> gnn_model g'' = gnn_model g"
    by (simp add: generate_counterfactuals_eq export_to_csv_eq)
  from 1 2 3 4 show ?thesis by blast
qed

theorem gnn_inference_only_witness:
  "GnnGenerator_init demo_env demo_args = (Inr demo_generator, []) \<and>
   \<not> training (gnn_model demo_generator) \<and>
   state_dict (gnn_model demo_generator) = Some (torch_load demo_env ''gnn.pth'') \<and>
   (\<exists>tr. script demo_env (GnnEditor_pipeline demo_oracles) demo_args = (Inr (), tr) \<and>
      GnnEditorPipeline demo_globals [(''sentences'', demo_cells)] (gnn_model demo_generator)
        (DistilBertForSequenceClassification [1])
        (DistilBertTokenizerFast ''distilbert-base-uncased'') (Some ''adj'') (Some True)
        True False False \<in> set tr \<and>
      editor_sees_frozen (gnn_model demo_generator)
        (GnnEditorPipeline demo_globals [(''sentences'', demo_cells)] (gnn_model demo_generator)
          (DistilBertForSequenceClassification [1])
          (DistilBertTokenizerFast ''distilbert-base-uncased'') (Some ''adj'') (Some True)
          True False False)) \<and>
   \<not> grad_enabled demo_globals"
proof -
  let ?ev = "GnnEditorPipeline demo_globals [(''sentences'', demo_cells)] (gnn_model demo_generator)
        (DistilBertForSequenceClassification [1])
        (DistilBertTokenizerFast ''distilbert-base-uncased'') (Some ''adj'') (Some True)
        True False False"
  have gf: "arg_gnn_model_file demo_args = Some ''gnn.pth''" by (simp add: demo_args_def)
  have mem: "?ev \<in> set (snd (script demo_env (GnnEditor_pipeline demo_oracles) demo_args))"
    unfolding script_def main_eq [OF demo_init]
    by (simp add: pipeline_eq demo_generator_def demo_globals_def demo_cells_def)
  have gl: "\<not> grad_enabled demo_globals"
    by (simp add: demo_globals_def module_toplevel_def)
  obtain tr where tr: "script demo_env (GnnEditor_pipeline demo_oracles) demo_args = (Inr (), tr)"
    and fr: "\<forall>ev \<in> set tr. editor_sees_frozen (gnn_model demo_generator) ev"
    and tn: "\<not> training (gnn_model demo_generator)"
    and sd: "\<exists>gf. arg_gnn_model_file demo_args = Some gf \<and>
        state_dict (gnn_model demo_generator) = Some (torch_load demo_env gf)"
    using gnn_inference_only [OF demo_init, of "GnnEditor_pipeline demo_oracles" demo_globals] by blast
  from mem tr have "?ev \<in> set tr" by simp
  with fr have "editor_sees_frozen (gnn_model demo_generator) ?ev" by blast
  with \<open>?ev \<in> set tr\<close> tr tn sd gf gl demo_init show ?thesis by auto
qed

text \<open>
  Claim C7. The working data is the one designated column. When construction succeeds, the
  sentences of the generator are the column \<open>col\<close> of the table read from \<open>src_file\<close>, with
  all its rows in order, and this is the data handed to the editor; a table that agrees with
  the one read on this column, whatever its other columns, gives the same generator.
\<close>

theorem working_data_is_column:
  assumes "GnnGenerator_init env a = (Inr g, tr)" "arg_src_file a = Some s" "arg_col a = Some c"
    "map_of table' c = map_of (read_csv env s) c"
  shows "\<exists>cells. map_of (read_csv env s) c = Some cells \<and> sentences g = [(c, cells)] \<and>
     GnnGenerator_init (env\<lparr>read_csv := (read_csv env)(s := table')\<rparr>) a = (Inr g, tr) \<and>
     snd (generate_counterfactuals E gl g) =
       [Print ''[INFO]: Generating counterfactuals...'',
        GnnEditorPipeline gl [(c, cells)] (gnn_model g) (predictor g) (tokenizer g) (pos g)
          (antonyms g) (edge_filter g) (opt_th g) (use_contrastive_prob g)]"
proof -
  obtain s' c' cells gf pp where v: "arg_src_file a = Some s'" "path_exists env s'" "arg_col a = Some c'"
    "map_of (read_csv env s') c' = Some cells" "arg_gnn_model_file a = Some gf"
    "path_exists env gf" "arg_predictor_path a = Some pp" "path_exists env pp"
    using init_valid [OF assms(1)] by blast
  from v assms have [simp]: "s' = s" "c' = c" by simp_all
  let ?env = "env\<lparr>read_csv := (read_csv env)(s := table')\<rparr>"
  have v': "arg_src_file a = Some s" "path_exists ?env s" "arg_col a = Some c"
    "map_of (read_csv ?env s) c = Some cells" "arg_gnn_model_file a = Some gf"
    "path_exists ?env gf" "arg_predictor_path a = Some pp" "path_exists ?env pp"
    using v assms by simp_all
  have same: "GnnGenerator_init ?env a = GnnGenerator_init env a"
    unfolding init_success [OF v] init_success [OF v'] by simp
  have sent: "sentences g = [(c, cells)]"
    using assms(1) unfolding init_success [OF v] by auto
  show ?thesis
    using v(4) same sent assms(1) by (simp add: generate_counterfactuals_eq)
qed

theorem working_data_is_column_witness:
  "GnnGenerator_init demo_env demo_args = (Inr demo_generator, []) \<and>
   arg_src_file demo_args = Some ''reviews.csv'' \<and> arg_col demo_args = Some ''sentences'' \<and>
   map_of demo_table' ''sentences'' = map_of (read_csv demo_env ''reviews.csv'') ''sentences'' \<and>
   sentences demo_generator = [(''sentences'', demo_cells)] \<and>
   GnnGenerator_init (demo_env\<lparr>read_csv := (read_csv demo_env)(''reviews.csv'' := demo_table')\<rparr>)
     demo_args = (Inr demo_generator, [])"
proof -
  have h: "arg_src_file demo_args = Some ''reviews.csv''" "arg_col demo_args = Some ''sentences''"
    "map_of demo_table' ''sentences'' = map_of (read_csv demo_env ''reviews.csv'') ''sentences''"
    by (simp_all add: demo_args_def demo_env_def demo_table'_def)
  from working_data_is_column [OF demo_init h, of "GnnEditor_pipeline demo_oracles" demo_globals] h demo_init demo_sentences
  show ?thesis by auto
qed

text \<open>
  Claim C8. The edits are written to \<open>gnn_edits.csv\<close> when \<open>dest_file\<close> is not given and to
  \<open>dest_file\<close> otherwise, in both cases with \<open>index=False\<close>: the one \<open>to_csv\<close> call of
  \<open>pipeline\<close> has this path, the edits that the editor returned and no index column.
\<close>

theorem edits_csv_path:
  assumes "GnnGenerator_init env a = (Inr g, tr0)"
  shows "dest_file g = (case arg_dest_file a of None \<Rightarrow> ''gnn_edits.csv'' | Some d \<Rightarrow> d) \<and>
     filter is_ToCsv (snd (pipeline E gl g)) =
       [ToCsv (case arg_dest_file a of None \<Rightarrow> ''gnn_edits.csv'' | Some d \<Rightarrow> d)
          (fst (E (sentences g) (gnn_model g) (predictor g) (tokenizer g) (pos g) (antonyms g)
             (edge_filter g) (opt_th g) (use_contrastive_prob g))) False]"
  using init_fields(2) [OF assms]
  by (simp add: pipeline_eq split: option.splits)

theorem edits_csv_path_witness:
  "GnnGenerator_init demo_env demo_args = (Inr demo_generator, []) \<and>
   GnnGenerator_init demo_env demo_args_dest =
     (Inr (demo_generator\<lparr>dest_file := ''out/edits.csv''\<rparr>), []) \<and>
   filter is_ToCsv (snd (pipeline (GnnEditor_pipeline demo_oracles) demo_globals demo_generator)) =
     [ToCsv ''gnn_edits.csv''
        [(''original sentence'', demo_cells),
         (''counterfactual sentence'', [Some ''a poor movie'', None, None])] False] \<and>
   filter is_ToCsv (snd (pipeline (GnnEditor_pipeline demo_oracles) demo_globals
       (demo_generator\<lparr>dest_file := ''out/edits.csv''\<rparr>))) =
     [ToCsv ''out/edits.csv''
        [(''original sentence'', demo_cells),
         (''counterfactual sentence'', [Some ''a poor movie'', None, None])] False]"
proof -
  have d: "arg_dest_file demo_args = None" "arg_dest_file demo_args_dest = Some ''out/edits.csv''"
    by (simp_all add: demo_args_def demo_args_dest_def)
  have f: "sentences demo_generator = [(''sentences'', demo_cells)]"
    "gnn_model demo_generator = demo_gnn"
    "predictor demo_generator = DistilBertForSequenceClassification [1]"
    "tokenizer demo_generator = DistilBertTokenizerFast ''distilbert-base-uncased''"
    "pos demo_generator = Some ''adj''" "antonyms demo_generator = Some True"
    "edge_filter demo_generator = True" "opt_th demo_generator = False"
    "use_contrastive_prob demo_generator = False"
    by (simp_all add: demo_generator_def demo_cells_def)
  from edits_csv_path [OF demo_init, of "GnnEditor_pipeline demo_oracles" demo_globals]
    edits_csv_path [OF demo_init_dest, of "GnnEditor_pipeline demo_oracles" demo_globals]
    demo_init demo_init_dest
  show ?thesis
    unfolding d by (simp add: f demo_editor_run)
qed

text \<open>
  Claim C9. An unset \<open>edge_filter\<close>, \<open>optimal_threshold\<close> or \<open>use_contrastive_prob\<close> becomes
  \<open>False\<close>, while \<open>pos\<close> and \<open>antonyms\<close> reach the editor as they were given: an unset
  \<open>antonyms\<close> is passed as \<open>None\<close>.
\<close>

theorem toggles_normalized:
  assumes "GnnGenerator_init env a = (Inr g, tr0)"
  shows "edge_filter g = (case arg_edge_filter a of Some b \<Rightarrow> b | None \<Rightarrow> False) \<and>
     opt_th g = (case arg_optimal_threshold a of Some b \<Rightarrow> b | None \<Rightarrow> False) \<and>
     use_contrastive_prob g = (case arg_use_contrastive_prob a of Some b \<Rightarrow> b | None \<Rightarrow> False) \<and>
     pos g = arg_pos a \<and> antonyms g = arg_antonyms a \<and>
     snd (generate_counterfactuals E gl g) =
       [Print ''[INFO]: Generating counterfactuals...'',
        GnnEditorPipeline gl (sentences g) (gnn_model g) (predictor g) (tokenizer g)
          (arg_pos a) (arg_antonyms a)
          (case arg_edge_filter a of Some b \<Rightarrow> b | None \<Rightarrow> False)
          (case arg_optimal_threshold a of Some b \<Rightarrow> b | None \<Rightarrow> False)
          (case arg_use_contrastive_prob a of Some b \<Rightarrow> b | None \<Rightarrow> False)]"
  using init_fields(4-8) [OF assms]
  by (simp add: generate_counterfactuals_eq)

theorem toggles_normalized_witness:
  "GnnGenerator_init demo_env demo_args_unset =
     (Inr (demo_generator\<lparr>antonyms := None, edge_filter := False\<rparr>), []) \<and>
   arg_antonyms demo_args_unset = None \<and> arg_edge_filter demo_args_unset = None \<and>
   snd (generate_counterfactuals (GnnEditor_pipeline demo_oracles) demo_globals
          (demo_generator\<lparr>antonyms := None, edge_filter := False\<rparr>)) =
     [Print ''[INFO]: Generating counterfactuals...'',
      GnnEditorPipeline demo_globals [(''sentences'', demo_cells)] demo_gnn
        (DistilBertForSequenceClassification [1])
        (DistilBertTokenizerFast ''distilbert-base-uncased'') (Some ''adj'') None
        False False False]"
proof -
  have a: "arg_antonyms demo_args_unset = None" "arg_edge_filter demo_args_unset = None"
    "arg_pos demo_args_unset = Some ''adj''" "arg_optimal_threshold demo_args_unset = None"
    "arg_use_contrastive_prob demo_args_unset = None"
    by (simp_all add: demo_args_unset_def demo_args_def)
  from toggles_normalized [OF demo_init_unset, of "GnnEditor_pipeline demo_oracles" demo_globals] demo_init_unset a
  show ?thesis
    by (simp add: demo_generator_def demo_cells_def)
qed

text \<open>
  Claim C10. \<open>generate_counterfactuals\<close> returns the generator it was called on with the
  fields \<open>edits\<close> and \<open>subs_dict\<close> set to what the editor returned; every other field is
  unchanged. Its effects are one printed line and the run of the editor.
\<close>

theorem generate_counterfactuals_frame:
  "\<exists>g'. generate_counterfactuals E gl self =
       (Inr g', [Print ''[INFO]: Generating counterfactuals...'',
                 GnnEditorPipeline gl (sentences self) (gnn_model self) (predictor self)
                   (tokenizer self) (pos self) (antonyms self) (edge_filter self) (opt_th self)
                   (use_contrastive_prob self)]) \<and>
     g' = self\<lparr>edits := edits g', subs_dict := subs_dict g'\<rparr> \<and>
     edits g' = Some (fst (E (sentences self) (gnn_model self) (predictor self)
                   (tokenizer self) (pos self) (antonyms self) (edge_filter self) (opt_th self)
                   (use_contrastive_prob self))) \<and>
     subs_dict g' = Some (snd (E (sentences self) (gnn_model self) (predictor self)
                   (tokenizer self) (pos self) (antonyms self) (edge_filter self) (opt_th self)
                   (use_contrastive_prob self))) \<and>
     sentences g' = sentences self \<and> gnn_model g' = gnn_model self \<and>
     predictor g' = predictor self \<and> tokenizer g' = tokenizer self \<and>
     dest_file g' = dest_file self \<and> json_file g' = json_file self \<and> pos g' = pos self \<and>
     antonyms g' = antonyms self \<and> edge_filter g' = edge_filter self \<and> opt_th g' = opt_th self \<and>
     use_contrastive_prob g' = use_contrastive_prob self"
  by (simp add: generate_counterfactuals_eq)

theorem generate_counterfactuals_frame_witness:
  "\<exists>g'. fst (generate_counterfactuals (GnnEditor_pipeline demo_oracles) demo_globals demo_generator) = Inr g' \<and>
     g' = demo_generator\<lparr>edits := edits g', subs_dict := subs_dict g'\<rparr> \<and>
     edits g' = Some [(''original sentence'', demo_cells),
                      (''counterfactual sentence'', [Some ''a poor movie'', None, None])] \<and>
     subs_dict g' = Some [(''great'', [''poor''])] \<and>
     dest_file g' = ''gnn_edits.csv'' \<and> json_file g' = None"
proof -
  have f: "sentences demo_generator = [(''sentences'', demo_cells)]"
    "gnn_model demo_generator = demo_gnn"
    "predictor demo_generator = DistilBertForSequenceClassification [1]"
    "tokenizer demo_generator = DistilBertTokenizerFast ''distilbert-base-uncased''"
    "pos demo_generator = Some ''adj''" "antonyms demo_generator = Some True"
    "edge_filter demo_generator = True" "opt_th demo_generator = False"
    "use_contrastive_prob demo_generator = False"
    "dest_file demo_generator = ''gnn_edits.csv''" "json_file demo_generator = None"
    by (simp_all add: demo_generator_def demo_cells_def)
  from generate_counterfactuals_frame [of "GnnEditor_pipeline demo_oracles" demo_globals demo_generator]
  show ?thesis
    unfolding f demo_editor_run by auto
qed

end
